theory Spec2Isabelle
  imports Main
begin

section \<open>Errors\<close>

text \<open>
  The code raises its errors through constructor functions named after the error
  (\<^verbatim>\<open>Errors.bad_value\<close>, \<^verbatim>\<open>Errors.badUse\<close>, \<^verbatim>\<open>Errors.wtf\<close>, \<^verbatim>\<open>Errors.aborted\<close>,
  \<^verbatim>\<open>Errors.revision_not_available\<close>, \<^verbatim>\<open>TypeError.badValue\<close>) and in one place
  through a plain \<^verbatim>\<open>new Error(...)\<close>. Every \<^verbatim>\<open>throw\<close> is a value of this type; a
  function that can throw returns \<open>error + 'a\<close> with \<open>Inl\<close> for the error. The string
  carried by a constructor is the expectation or message the code passes.
\<close>

datatype error =
    bad_value string
  | bad_use string
  | wtf string
  | aborted string
  | revision_not_available int
  | js_type_error
  | plain_error string
  | other_error string

text \<open>
  The specification's taxonomy of errors, and the category each error name of the code
  falls into. Input problems (a value of the wrong type, shape or range, or a call
  whose precondition does not hold) are \<open>InvalidArgument\<close>; \<^verbatim>\<open>wtf\<close> is the code's
  name for an internal-consistency failure.
\<close>

datatype error_class =
    InvalidArgument
  | RevisionNotAvailable
  | AbortedError
  | InternalConsistency
  | External

fun error_class_of :: "error \<Rightarrow> error_class" where
  "error_class_of (bad_value _) = InvalidArgument"
| "error_class_of (bad_use _) = InvalidArgument"
| "error_class_of (wtf _) = InternalConsistency"
| "error_class_of (aborted _) = AbortedError"
| "error_class_of (revision_not_available _) = RevisionNotAvailable"
| "error_class_of js_type_error = External"
| "error_class_of (plain_error _) = External"
| "error_class_of (other_error _) = External"

section \<open>BaseDelta\<close>

text \<open>
  An operation is a name with arguments; a delta is an instance of a concrete class
  (the class is kept as its name) holding a frozen array of operations.
\<close>

datatype BaseOp = Op string "string list"

record BaseDelta =
  dclass :: string
  ops :: "BaseOp list"

text \<open>
  The override points of a concrete delta class: \<^verbatim>\<open>_impl_compose\<close> (which may throw) and
  \<^verbatim>\<open>_impl_isDocument\<close>.
\<close>

record delta_impl =
  impl_compose :: "BaseDelta \<Rightarrow> BaseDelta \<Rightarrow> bool \<Rightarrow> error + BaseDelta"
  impl_isDocument :: "BaseDelta \<Rightarrow> bool"

text \<open>
  Modelled from the spec: \<^verbatim>\<open>CommonBase.check\<close> (util-common) is not among the sources.
  \<^verbatim>\<open>this.constructor.check(value)\<close> returns the value when it is an instance of the
  receiver's concrete class and fails with the bad-value error otherwise.
\<close>

definition delta_check :: "string \<Rightarrow> BaseDelta \<Rightarrow> error + BaseDelta" where
  "delta_check clazz d = (if dclass d = clazz then Inr d else Inl (bad_value clazz))"

definition isDocument :: "delta_impl \<Rightarrow> BaseDelta \<Rightarrow> bool" where
  "isDocument impl d = impl_isDocument impl d"

definition isEmpty :: "BaseDelta \<Rightarrow> bool" where
  "isEmpty d = (length (ops d) = 0)"

definition EMPTY :: "string \<Rightarrow> BaseDelta" where
  "EMPTY clazz = \<lparr> dclass = clazz, ops = [] \<rparr>"

text \<open>The two messages \<^verbatim>\<open>compose\<close> passes to its error constructors.\<close>

definition msg_non_document_instance :: string where
  "msg_non_document_instance = ''`wantDocument === true` on non-document instance.''"

definition msg_non_document_result :: string where
  "msg_non_document_result = ''Non-document return value when passed `true` for `wantDocument`.''"

text \<open>\<^verbatim>\<open>BaseDelta.compose(other, wantDocument)\<close>, check by check.\<close>

definition compose :: "delta_impl \<Rightarrow> BaseDelta \<Rightarrow> BaseDelta \<Rightarrow> bool \<Rightarrow> error + BaseDelta" where
  "compose impl this other wantDocument =
     (case delta_check (dclass this) other of
        Inl e \<Rightarrow> Inl e
      | Inr _ \<Rightarrow>
          if wantDocument \<and> \<not> isDocument impl this
          then Inl (bad_use msg_non_document_instance)
          else (case impl_compose impl this other wantDocument of
                  Inl e \<Rightarrow> Inl e
                | Inr result \<Rightarrow>
                    (case delta_check (dclass this) result of
                       Inl e \<Rightarrow> Inl e
                     | Inr _ \<Rightarrow>
                         if wantDocument \<and> \<not> isDocument impl result
                         then Inl (wtf msg_non_document_result)
                         else Inr result)))"

text \<open>
  A concrete delta class for evaluating the definitions: operations named
  \<open>''insert''\<close> make a document, composition appends. \<open>broken_impl\<close> is a class
  whose \<^verbatim>\<open>_impl_compose\<close> ignores \<^verbatim>\<open>wantDocument\<close> and always answers with a retain;
  \<open>wrongclass_impl\<close> is one that answers with a retain in a delta of another class.
\<close>

fun is_insert_op :: "BaseOp \<Rightarrow> bool" where
  "is_insert_op (Op n _) = (n = ''insert'')"

definition append_impl :: delta_impl where
  "append_impl =
     \<lparr> impl_compose = (\<lambda>a b w. Inr \<lparr> dclass = dclass a, ops = ops a @ ops b \<rparr>),
       impl_isDocument = (\<lambda>d. list_all is_insert_op (ops d)) \<rparr>"

definition broken_impl :: delta_impl where
  "broken_impl =
     \<lparr> impl_compose = (\<lambda>a b w. Inr \<lparr> dclass = dclass a, ops = [Op ''retain'' [''1'']] \<rparr>),
       impl_isDocument = (\<lambda>d. list_all is_insert_op (ops d)) \<rparr>"

definition wrongclass_result :: BaseDelta where
  "wrongclass_result = \<lparr> dclass = ''AnotherDelta'', ops = [Op ''retain'' [''1'']] \<rparr>"

definition wrongclass_impl :: delta_impl where
  "wrongclass_impl =
     \<lparr> impl_compose = (\<lambda>a b w. Inr wrongclass_result),
       impl_isDocument = (\<lambda>d. list_all is_insert_op (ops d)) \<rparr>"

definition doc_x :: BaseDelta where
  "doc_x = \<lparr> dclass = ''MockDelta'', ops = [Op ''insert'' [''x'']] \<rparr>"

definition nondoc_r :: BaseDelta where
  "nondoc_r = \<lparr> dclass = ''MockDelta'', ops = [Op ''retain'' [''1'']] \<rparr>"

definition other_class_y :: BaseDelta where
  "other_class_y = \<lparr> dclass = ''AnotherDelta'', ops = [Op ''insert'' [''y'']] \<rparr>"

section \<open>Revision numbers\<close>

text \<open>
  Modelled from the spec: \<^verbatim>\<open>RevisionNumber\<close> (doc-common) is not among the sources. A
  revision number is a non-negative integer; \<^verbatim>\<open>check\<close> is written as the \<^verbatim>\<open>check\<close> of
  \<^verbatim>\<open>VersionNumber\<close>, the class of the same module that is among the sources: a number
  that is not a safe integer or is negative fails with the bad-value error.
\<close>

definition isSafeInteger :: "int \<Rightarrow> bool" where
  "isSafeInteger v = (- (2 ^ 53 - 1) \<le> v \<and> v \<le> 2 ^ 53 - 1)"

definition RevisionNumber_check :: "int \<Rightarrow> error + int" where
  "RevisionNumber_check v =
     (if \<not> isSafeInteger v \<or> v < 0 then Inl (bad_value ''RevisionNumber'') else Inr v)"

text \<open>
  \<^verbatim>\<open>RevisionNumber.maxInc(value, maxInc)\<close> is not among the sources either, and the spec
  has no sentence for it. The controller uses its result as the revision to serve,
  promises its primitives a revision that is the instantaneously-current revision or
  earlier, and calls a request for a revision that does not yet exist an error: so it
  returns a revision number up to the maximum and throws on anything else. Which error
  it throws is said nowhere, so the error is a parameter.
\<close>

definition RevisionNumber_maxInc :: "error \<Rightarrow> int \<Rightarrow> int \<Rightarrow> error + int" where
  "RevisionNumber_maxInc rejection v m =
     (if \<not> isSafeInteger v \<or> v < 0 \<or> v > m then Inl rejection else Inr v)"

section \<open>Changes and snapshots\<close>

text \<open>
  A change is a delta with the revision number it produces, a timestamp and an author,
  both of which may be \<^verbatim>\<open>null\<close>. A snapshot is a revision number with the contents
  at that revision. Both carry the name of their concrete class.
\<close>

record revisioned =
  revNum :: int

record 'd delta_at = revisioned +
  delta :: 'd

record 'd contents_at = revisioned +
  contents :: 'd

record BaseChange = "BaseDelta delta_at" +
  timestamp :: "int option"
  authorId :: "string option"
  cclass :: string

record BaseSnapshot = "BaseDelta contents_at" +
  sclass :: string

text \<open>
  Modelled from the spec: \<^verbatim>\<open>BaseChange\<close> (its \<^verbatim>\<open>FIRST\<close>, \<^verbatim>\<open>withRevNum\<close> and \<^verbatim>\<open>check\<close>)
  and \<^verbatim>\<open>BaseSnapshot.check\<close> are not among the sources. \<^verbatim>\<open>FIRST\<close> is the empty change
  of a change class, at revision 0 with no timestamp and no author; \<^verbatim>\<open>withRevNum\<close>
  copies a change with another revision number; \<^verbatim>\<open>check\<close> accepts the instances of
  the class and fails with the bad-value error otherwise.
\<close>

definition FIRST :: "string \<Rightarrow> string \<Rightarrow> BaseChange" where
  "FIRST changeClazz deltaClazz =
     \<lparr> revNum = 0, delta = EMPTY deltaClazz, timestamp = None, authorId = None,
       cclass = changeClazz \<rparr>"

definition withRevNum :: "BaseChange \<Rightarrow> int \<Rightarrow> BaseChange" where
  "withRevNum c n = c\<lparr> revNum := n \<rparr>"

definition change_check :: "string \<Rightarrow> BaseChange \<Rightarrow> error + BaseChange" where
  "change_check clazz c = (if cclass c = clazz then Inr c else Inl (bad_value clazz))"

definition snapshot_check :: "string \<Rightarrow> BaseSnapshot \<Rightarrow> error + BaseSnapshot" where
  "snapshot_check clazz s = (if sclass s = clazz then Inr s else Inl (bad_value clazz))"

section \<open>BaseControl\<close>

text \<open>
  One attempt of \<^verbatim>\<open>_impl_update\<close> either loses a race (returns \<^verbatim>\<open>null\<close>), returns a
  correction, or throws.
\<close>

datatype attempt = Lost_race | Returned BaseChange | Thrown error

text \<open>
  What a controller does to the outside, in order: a read of the current revision
  number, a call of one of the subclass's primitives, a delay. The revision log is
  only reached through the primitives, and only \<^verbatim>\<open>_impl_update\<close> writes to it.
\<close>

datatype event =
    Ev_currentRevNum
  | Ev_impl_getChangeAfter int int
  | Ev_impl_getSnapshot int
  | Ev_impl_update nat
  | Ev_delay int

text \<open>
  A controller: the classes it works with and its subclass's primitives as they answer
  during one call. \<^verbatim>\<open>_impl_getChangeAfter\<close> may wait for a change that never comes
  (\<open>None\<close>); \<^verbatim>\<open>_impl_update\<close> is called once per attempt and may answer differently
  each time, so it takes the number of the attempt. \<open>snapshot_compose\<close> is
  \<^verbatim>\<open>baseSnapshot.compose(change)\<close> of the snapshot class. \<open>maxInc_rejection\<close> is the
  error that \<^verbatim>\<open>RevisionNumber.maxInc\<close> throws.
\<close>

record control =
  changeClass :: string
  deltaClass :: string
  snapshotClass :: string
  impl_currentRevNum :: "error + int"
  impl_getChangeAfter :: "int \<Rightarrow> int \<Rightarrow> (error + BaseChange option) option"
  impl_getSnapshot :: "int \<Rightarrow> error + BaseSnapshot option"
  impl_update :: "nat \<Rightarrow> BaseSnapshot \<Rightarrow> BaseChange \<Rightarrow> BaseSnapshot \<Rightarrow> attempt"
  snapshot_compose :: "BaseSnapshot \<Rightarrow> BaseChange \<Rightarrow> error + BaseSnapshot"
  maxInc_rejection :: error

definition INITIAL_UPDATE_RETRY_MSEC :: int where
  "INITIAL_UPDATE_RETRY_MSEC = 50"

definition UPDATE_RETRY_GROWTH_FACTOR :: int where
  "UPDATE_RETRY_GROWTH_FACTOR = 5"

definition MAX_UPDATE_TIME_MSEC :: int where
  "MAX_UPDATE_TIME_MSEC = 20 * 1000"

definition msg_too_many_attempts :: string where
  "msg_too_many_attempts = ''Too many failed attempts in `update()`.''"

definition currentRevNum :: "control \<Rightarrow> error + int" where
  "currentRevNum ctl =
     (case impl_currentRevNum ctl of
        Inl e \<Rightarrow> Inl e
      | Inr r \<Rightarrow> RevisionNumber_check r)"


text \<open>\<^verbatim>\<open>getSnapshot(revNum = null)\<close>.\<close>

definition getSnapshot :: "control \<Rightarrow> int option \<Rightarrow> (error + BaseSnapshot) \<times> event list" where
  "getSnapshot ctl revNum_arg =
     (case currentRevNum ctl of
        Inl e \<Rightarrow> (Inl e, [Ev_currentRevNum])
      | Inr current \<Rightarrow>
          (case (case revNum_arg of
                   None \<Rightarrow> Inr current
                 | Some r \<Rightarrow> RevisionNumber_maxInc (maxInc_rejection ctl) r current) of
             Inl e \<Rightarrow> (Inl e, [Ev_currentRevNum])
           | Inr r \<Rightarrow>
               (case impl_getSnapshot ctl r of
                  Inl e \<Rightarrow> (Inl e, [Ev_currentRevNum, Ev_impl_getSnapshot r])
                | Inr None \<Rightarrow>
                    (Inl (revision_not_available r), [Ev_currentRevNum, Ev_impl_getSnapshot r])
                | Inr (Some result) \<Rightarrow>
                    (snapshot_check (snapshotClass ctl) result,
                     [Ev_currentRevNum, Ev_impl_getSnapshot r]))))"

text \<open>
  The attempt loop of \<^verbatim>\<open>update()\<close>, with its three variables and the events so far.
  The loop has no bound of its own, so it is a partial function: \<open>None\<close> is a loop
  that never ends.
\<close>

partial_function (option) update_loop ::
  "(nat \<Rightarrow> attempt) \<Rightarrow> int \<Rightarrow> int \<Rightarrow> nat \<Rightarrow> event list
     \<Rightarrow> ((error + BaseChange) \<times> event list) option" where
  "update_loop attempt_fn retryDelayMsec retryTotalMsec attemptCount evs =
     (case attempt_fn (attemptCount + 1) of
        Returned result \<Rightarrow> Some (Inr result, evs @ [Ev_impl_update (attemptCount + 1)])
      | Thrown e \<Rightarrow> Some (Inl e, evs @ [Ev_impl_update (attemptCount + 1)])
      | Lost_race \<Rightarrow>
          if retryTotalMsec \<ge> MAX_UPDATE_TIME_MSEC
          then Some (Inl (aborted msg_too_many_attempts),
                     evs @ [Ev_impl_update (attemptCount + 1)])
          else update_loop attempt_fn
                 (retryDelayMsec * UPDATE_RETRY_GROWTH_FACTOR)
                 (retryTotalMsec + retryDelayMsec)
                 (attemptCount + 1)
                 (evs @ [Ev_impl_update (attemptCount + 1), Ev_delay retryDelayMsec]))"

text \<open>\<^verbatim>\<open>update(change)\<close>.\<close>

definition update :: "control \<Rightarrow> BaseChange \<Rightarrow> ((error + BaseChange) \<times> event list) option" where
  "update ctl change =
     (case change_check (changeClass ctl) change of
        Inl e \<Rightarrow> Some (Inl e, [])
      | Inr _ \<Rightarrow>
          if timestamp change = None then Some (Inl (bad_value ''timestamp !== null''), [])
          else if revNum change - 1 < 0 then Some (Inl (bad_value ''revNum >= 1''), [])
          else if isEmpty (delta change)
          then Some (Inr (withRevNum (FIRST (changeClass ctl) (deltaClass ctl)) (revNum change - 1)), [])
          else (case getSnapshot ctl (Some (revNum change - 1)) of
                  (Inl e, evs) \<Rightarrow> Some (Inl e, evs)
                | (Inr baseSnapshot, evs) \<Rightarrow>
                    (case snapshot_compose ctl baseSnapshot change of
                       Inl e \<Rightarrow> Some (Inl e, evs)
                     | Inr expectedSnapshot \<Rightarrow>
                         update_loop (\<lambda>k. impl_update ctl k baseSnapshot change expectedSnapshot)
                           INITIAL_UPDATE_RETRY_MSEC 0 0 evs)))"

text \<open>
  The events of the first \<open>k\<close> lost attempts with the delays that follow them, and
  the time slept after \<open>k\<close> of them.
\<close>

fun backoff_events :: "nat \<Rightarrow> event list" where
  "backoff_events 0 = []"
| "backoff_events (Suc k) = backoff_events k @ [Ev_impl_update (Suc k), Ev_delay (50 * 5 ^ k)]"

fun retry_total :: "nat \<Rightarrow> int" where
  "retry_total 0 = 0"
| "retry_total (Suc k) = retry_total k + 50 * 5 ^ k"

text \<open>
  A controller for evaluating the definitions: an ephemeral part at the given head
  revision that keeps the last two revisions, with the answers of \<^verbatim>\<open>_impl_update\<close>
  given attempt by attempt.
\<close>

definition demo_snapshot :: "int \<Rightarrow> BaseSnapshot" where
  "demo_snapshot n = \<lparr> revNum = n, contents = EMPTY ''MockDelta'', sclass = ''MockSnapshot'' \<rparr>"

definition demo_change :: "int \<Rightarrow> BaseOp list \<Rightarrow> int option \<Rightarrow> BaseChange" where
  "demo_change n os ts =
     \<lparr> revNum = n, delta = \<lparr> dclass = ''MockDelta'', ops = os \<rparr>, timestamp = ts,
       authorId = None, cclass = ''MockChange'' \<rparr>"

definition demo_control :: "int \<Rightarrow> (nat \<Rightarrow> attempt) \<Rightarrow> control" where
  "demo_control head attempt_fn =
     \<lparr> changeClass = ''MockChange'', deltaClass = ''MockDelta'', snapshotClass = ''MockSnapshot'',
       impl_currentRevNum = Inr head,
       impl_getChangeAfter = (\<lambda>base current.
          if base = current then None
          else if base < current - 2 then Some (Inr None)
          else Some (Inr (Some (demo_change (base + 1) [Op ''insert'' [''x'']] None)))),
       impl_getSnapshot = (\<lambda>r. if r < head - 2 then Inr None else Inr (Some (demo_snapshot r))),
       impl_update = (\<lambda>k baseSnapshot change expectedSnapshot. attempt_fn k),
       snapshot_compose = (\<lambda>s c. Inr (s\<lparr> revNum := revNum c \<rparr>)),
       maxInc_rejection = other_error ''RevisionNumber'' \<rparr>"

definition always_lost :: "nat \<Rightarrow> attempt" where
  "always_lost k = Lost_race"

definition third_wins :: "nat \<Rightarrow> attempt" where
  "third_wins k = (if k < 3 then Lost_race else Returned (demo_change 4 [] None))"

definition second_throws :: "nat \<Rightarrow> attempt" where
  "second_throws k = (if k < 2 then Lost_race else Thrown (other_error ''storage''))"

section \<open>DocumentSnapshot\<close>

text \<open>
  The contents of a document snapshot are a frozen Quill delta: a list of inserts,
  retains and deletes. A \<^verbatim>\<open>DocumentDelta\<close> is such a delta with the revision number it
  produces, a \<^verbatim>\<open>DocumentSnapshot\<close> is a revision number with the contents.
\<close>

datatype QuillOp = Insert string | Retain nat | Delete nat

type_synonym FrozenDelta = "QuillOp list"

type_synonym DocumentDelta = "FrozenDelta delta_at"

type_synonym DocumentSnapshot = "FrozenDelta contents_at"

text \<open>
  Modelled from the spec: \<^verbatim>\<open>FrozenDelta\<close> and \<^verbatim>\<open>DocumentDelta\<close> (doc-common) are not among
  the sources. A frozen delta is a document when it consists of inserts only;
  \<^verbatim>\<open>coerce\<close> leaves a frozen delta as it is; a \<^verbatim>\<open>DocumentDelta\<close> is made of a valid
  revision number and a delta.
\<close>

fun is_Insert :: "QuillOp \<Rightarrow> bool" where
  "is_Insert (Insert _) = True"
| "is_Insert (Retain _) = False"
| "is_Insert (Delete _) = False"

definition FrozenDelta_isDocument :: "FrozenDelta \<Rightarrow> bool" where
  "FrozenDelta_isDocument d = list_all is_Insert d"

definition FrozenDelta_coerce :: "FrozenDelta \<Rightarrow> FrozenDelta" where
  "FrozenDelta_coerce d = d"

definition new_DocumentDelta :: "int \<Rightarrow> FrozenDelta \<Rightarrow> error + DocumentDelta" where
  "new_DocumentDelta n d =
     (case RevisionNumber_check n of
        Inl e \<Rightarrow> Inl e
      | Inr r \<Rightarrow> Inr \<lparr> revNum = r, delta = FrozenDelta_coerce d \<rparr>)"

text \<open>
  What a method of the delta library can be handed at run time: the language does not
  stop a caller from passing a snapshot where a delta is expected.
\<close>

datatype js_value = V_delta FrozenDelta | V_snapshot DocumentSnapshot

text \<open>
  The delta library the contents come from (Quill's \<^verbatim>\<open>Delta\<close>), outside the
  repository: its \<^verbatim>\<open>compose\<close>, and its \<^verbatim>\<open>diff\<close> with the argument as it arrives.
\<close>

record quill =
  q_compose :: "FrozenDelta \<Rightarrow> FrozenDelta \<Rightarrow> FrozenDelta"
  q_diff :: "FrozenDelta \<Rightarrow> js_value \<Rightarrow> error + FrozenDelta"

definition msg_expected_document :: string where
  "msg_expected_document = ''Expected `contents` to be a \"document\" (insert-only delta).''"

text \<open>The constructor of \<^verbatim>\<open>DocumentSnapshot\<close>.\<close>

definition new_DocumentSnapshot :: "int \<Rightarrow> FrozenDelta \<Rightarrow> error + DocumentSnapshot" where
  "new_DocumentSnapshot n c =
     (case RevisionNumber_check n of
        Inl e \<Rightarrow> Inl e
      | Inr r \<Rightarrow>
          if \<not> FrozenDelta_isDocument (FrozenDelta_coerce c)
          then Inl (plain_error msg_expected_document)
          else Inr \<lparr> revNum = r, contents = FrozenDelta_coerce c \<rparr>)"

text \<open>\<^verbatim>\<open>DocumentSnapshot.compose(delta)\<close>.\<close>

definition DocumentSnapshot_compose ::
  "quill \<Rightarrow> DocumentSnapshot \<Rightarrow> DocumentDelta \<Rightarrow> error + DocumentSnapshot" where
  "DocumentSnapshot_compose q this d =
     new_DocumentSnapshot (revNum d) (FrozenDelta_coerce (q_compose q (contents this) (delta d)))"

text \<open>
  \<^verbatim>\<open>DocumentSnapshot.diff(newerSnapshot)\<close>. The argument of the contents' \<^verbatim>\<open>diff\<close> is
  \<^verbatim>\<open>newerSnapshot\<close> itself, as the source has it.
\<close>

definition DocumentSnapshot_diff ::
  "quill \<Rightarrow> DocumentSnapshot \<Rightarrow> DocumentSnapshot \<Rightarrow> error + DocumentDelta" where
  "DocumentSnapshot_diff q this newerSnapshot =
     (case q_diff q (contents this) (V_snapshot newerSnapshot) of
        Inl e \<Rightarrow> Inl e
      | Inr d \<Rightarrow> new_DocumentDelta (revNum newerSnapshot) (FrozenDelta_coerce d))"

text \<open>
  A small delta library for evaluating the definitions. Composing puts the inserts of
  the delta in front of the document; the difference between two documents deletes the
  old text and inserts the new one; \<^verbatim>\<open>diff\<close> reads the operations of its argument and
  throws a type error when the argument has none, as a snapshot does.
\<close>

fun op_length :: "QuillOp \<Rightarrow> nat" where
  "op_length (Insert s) = length s"
| "op_length (Retain n) = n"
| "op_length (Delete n) = n"

definition demo_quill :: quill where
  "demo_quill =
     \<lparr> q_compose = (\<lambda>a b. filter is_Insert b @ a),
       q_diff = (\<lambda>a v. case v of
                    V_delta b \<Rightarrow> Inr (if a = b then [] else b @ [Delete (sum_list (map op_length a))])
                  | V_snapshot _ \<Rightarrow> Inl js_type_error) \<rparr>"

definition snap_10 :: DocumentSnapshot where
  "snap_10 = \<lparr> revNum = 10, contents = [Insert ''x''] \<rparr>"

definition delta_20 :: DocumentDelta where
  "delta_20 = \<lparr> revNum = 20, delta = [] \<rparr>"

definition snap_0 :: DocumentSnapshot where
  "snap_0 = \<lparr> revNum = 0, contents = [] \<rparr>"

definition snap_1 :: DocumentSnapshot where
  "snap_1 = \<lparr> revNum = 1, contents = [Insert ''x''] \<rparr>"

section \<open>AuthorSession\<close>

text \<open>
  A session holds the file complex it belongs to (kept as the id of its file), its
  session id and the id of the author it acts for. The two controllers of the file
  complex are outside the session: a method that passes a call through to one of them
  is modelled by the call it makes.
\<close>

record FileComplex =
  file_id :: string

record AuthorSession =
  fileComplex :: FileComplex
  own_sessionId :: string
  own_authorId :: string

text \<open>
  Modelled from the spec: \<^verbatim>\<open>TString.nonempty\<close> (typecheck) is not among the sources; it
  returns a string that is not empty and fails with the bad-value error on an empty
  one.
\<close>

definition TString_nonempty :: "string \<Rightarrow> error + string" where
  "TString_nonempty v = (if v = [] then Inl (bad_value ''nonempty string'') else Inr v)"

definition new_AuthorSession :: "FileComplex \<Rightarrow> string \<Rightarrow> string \<Rightarrow> error + AuthorSession" where
  "new_AuthorSession fc sid aid =
     (case TString_nonempty sid of
        Inl e \<Rightarrow> Inl e
      | Inr s \<Rightarrow>
          (case TString_nonempty aid of
             Inl e \<Rightarrow> Inl e
           | Inr a \<Rightarrow> Inr \<lparr> fileComplex = fc, own_sessionId = s, own_authorId = a \<rparr>))"

text \<open>What a method of the session does: a call of a controller, or an answer of its own.\<close>

datatype session_effect =
    DocControl_applyDelta int FrozenDelta string
  | DocControl_change int
  | DocControl_deltaAfter int
  | DocControl_snapshot "int option"
  | CaretControl_deltaAfter int
  | CaretControl_snapshot "int option"
  | CaretControl_update string int int int
  | Answer string

definition AuthorSession_applyDelta :: "AuthorSession \<Rightarrow> int \<Rightarrow> FrozenDelta \<Rightarrow> session_effect" where
  "AuthorSession_applyDelta this baseRevNum d = DocControl_applyDelta baseRevNum d (own_authorId this)"

definition AuthorSession_change :: "AuthorSession \<Rightarrow> int \<Rightarrow> session_effect" where
  "AuthorSession_change this n = DocControl_change n"

definition AuthorSession_deltaAfter :: "AuthorSession \<Rightarrow> int \<Rightarrow> session_effect" where
  "AuthorSession_deltaAfter this baseRevNum = DocControl_deltaAfter baseRevNum"

definition AuthorSession_getLogInfo :: "AuthorSession \<Rightarrow> session_effect" where
  "AuthorSession_getLogInfo this =
     Answer (''file '' @ file_id (fileComplex this) @ ''; session '' @ own_sessionId this
             @ ''; author '' @ own_authorId this)"

definition AuthorSession_getSessionId :: "AuthorSession \<Rightarrow> session_effect" where
  "AuthorSession_getSessionId this = Answer (own_sessionId this)"

definition AuthorSession_snapshot :: "AuthorSession \<Rightarrow> int option \<Rightarrow> session_effect" where
  "AuthorSession_snapshot this n = DocControl_snapshot n"

definition AuthorSession_caretDeltaAfter :: "AuthorSession \<Rightarrow> int \<Rightarrow> session_effect" where
  "AuthorSession_caretDeltaAfter this baseRevNum = CaretControl_deltaAfter baseRevNum"

definition AuthorSession_caretSnapshot :: "AuthorSession \<Rightarrow> int option \<Rightarrow> session_effect" where
  "AuthorSession_caretSnapshot this n = CaretControl_snapshot n"

definition AuthorSession_caretUpdate :: "AuthorSession \<Rightarrow> int \<Rightarrow> int \<Rightarrow> int option \<Rightarrow> session_effect" where
  "AuthorSession_caretUpdate this docRevNum index len =
     CaretControl_update (own_sessionId this) docRevNum index (case len of None \<Rightarrow> 0 | Some l \<Rightarrow> l)"

text \<open>
  The public methods of a session with the arguments a client supplies, and the call
  of a method by its name. A client may pass more arguments than a method declares;
  the language drops them.
\<close>

datatype session_request =
    R_applyDelta int FrozenDelta
  | R_change int
  | R_deltaAfter int
  | R_getLogInfo
  | R_getSessionId
  | R_snapshot "int option"
  | R_caretDeltaAfter int
  | R_caretSnapshot "int option"
  | R_caretUpdate int int "int option"

fun invoke :: "AuthorSession \<Rightarrow> session_request \<Rightarrow> string list \<Rightarrow> session_effect" where
  "invoke this (R_applyDelta b d) surplus = AuthorSession_applyDelta this b d"
| "invoke this (R_change n) surplus = AuthorSession_change this n"
| "invoke this (R_deltaAfter b) surplus = AuthorSession_deltaAfter this b"
| "invoke this R_getLogInfo surplus = AuthorSession_getLogInfo this"
| "invoke this R_getSessionId surplus = AuthorSession_getSessionId this"
| "invoke this (R_snapshot n) surplus = AuthorSession_snapshot this n"
| "invoke this (R_caretDeltaAfter b) surplus = AuthorSession_caretDeltaAfter this b"
| "invoke this (R_caretSnapshot n) surplus = AuthorSession_caretSnapshot this n"
| "invoke this (R_caretUpdate r i l) surplus = AuthorSession_caretUpdate this r i l"

text \<open>The author ids and the session ids a call hands to a controller.\<close>

fun authors_passed :: "session_effect \<Rightarrow> string list" where
  "authors_passed (DocControl_applyDelta _ _ a) = [a]"
| "authors_passed _ = []"

fun sessions_passed :: "session_effect \<Rightarrow> string list" where
  "sessions_passed (CaretControl_update s _ _ _) = [s]"
| "sessions_passed _ = []"

definition demo_fileComplex :: FileComplex where
  "demo_fileComplex = \<lparr> file_id = ''some-file'' \<rparr>"

section \<open>BaseFile\<close>

text \<open>
  Modelled from the spec: \<^verbatim>\<open>TInt\<close> (typecheck) is not among the sources.
  \<^verbatim>\<open>TInt.nonNegative(v)\<close> accepts \<open>v \<ge> 0\<close> and \<^verbatim>\<open>TInt.min(v, minInc)\<close> accepts
  \<open>v \<ge> minInc\<close>; both fail with the bad-value error otherwise.
\<close>

definition TInt_nonNegative :: "int \<Rightarrow> error + int" where
  "TInt_nonNegative v = (if v < 0 then Inl (bad_value ''Int'') else Inr v)"

definition TInt_min :: "int \<Rightarrow> int \<Rightarrow> error + int" where
  "TInt_min v minInc = (if v < minInc then Inl (bad_value ''Int'') else Inr v)"

text \<open>
  What \<^verbatim>\<open>_impl_transact\<close> answers: the revision number the transaction ran at, the
  revision number its writes produced (or \<^verbatim>\<open>null\<close>) and the data it read (or
  \<^verbatim>\<open>null\<close>).
\<close>

record transaction_result = revisioned +
  newRevNum :: "int option"
  data :: "(string \<times> string) list option"

text \<open>A file keeps the last revision number it reported.\<close>

record BaseFile =
  fileId :: string
  lastRevNum :: int

definition new_BaseFile :: "string \<Rightarrow> error + BaseFile" where
  "new_BaseFile i =
     (case TString_nonempty i of
        Inl e \<Rightarrow> Inl e
      | Inr v \<Rightarrow> Inr \<lparr> fileId = v, lastRevNum = - 1 \<rparr>)"

text \<open>
  Modelled from the spec: \<^verbatim>\<open>TransactionSpec\<close> and \<^verbatim>\<open>FileOp\<close> (content-store) are not
  among the sources. A transaction spec is a list of operations on storage paths:
  reads, writes, and a check of the revision number the transaction expects.
\<close>

datatype FileOp = Op_readPath string | Op_writePath string string | Op_checkRevNum int

type_synonym TransactionSpec = "FileOp list"

fun is_write :: "FileOp \<Rightarrow> bool" where
  "is_write (Op_writePath _ _) = True"
| "is_write _ = False"

text \<open>
  \<^verbatim>\<open>transact(spec)\<close>, with the \<^verbatim>\<open>_impl_transact\<close> of the subclass as it answers at the
  time of the call. A \<^verbatim>\<open>newRevNum\<close> or \<^verbatim>\<open>data\<close> of \<^verbatim>\<open>null\<close> is dropped from the result,
  which is \<open>None\<close> here as well.
\<close>

definition BaseFile_transact ::
  "(TransactionSpec \<Rightarrow> error + transaction_result) \<Rightarrow> TransactionSpec
     \<Rightarrow> error + transaction_result" where
  "BaseFile_transact impl_transact spec =
     (case impl_transact spec of
        Inl e \<Rightarrow> Inl e
      | Inr result \<Rightarrow>
          (case TInt_nonNegative (revNum result) of
             Inl e \<Rightarrow> Inl e
           | Inr _ \<Rightarrow>
               (case newRevNum result of
                  None \<Rightarrow> Inr result
                | Some n \<Rightarrow>
                    (case TInt_min n (revNum result + 1) of
                       Inl e \<Rightarrow> Inl e
                     | Inr _ \<Rightarrow> Inr result))))"

text \<open>
  \<^verbatim>\<open>revNum()\<close>: a transaction with an empty spec, whose revision number must not be
  below the last one reported. An error leaves the file as it was.
\<close>

definition BaseFile_revNum ::
  "(TransactionSpec \<Rightarrow> error + transaction_result) \<Rightarrow> BaseFile \<Rightarrow> (error + int) \<times> BaseFile" where
  "BaseFile_revNum impl_transact this =
     (case BaseFile_transact impl_transact [] of
        Inl e \<Rightarrow> (Inl e, this)
      | Inr transactionResult \<Rightarrow>
          (case TInt_min (revNum transactionResult) (lastRevNum this) of
             Inl e \<Rightarrow> (Inl e, this)
           | Inr r \<Rightarrow> (Inr r, this\<lparr> lastRevNum := r \<rparr>)))"

text \<open>\<^verbatim>\<open>create()\<close>, given whether \<^verbatim>\<open>_impl_create\<close> throws.\<close>

definition BaseFile_create :: "error option \<Rightarrow> BaseFile \<Rightarrow> (error + unit) \<times> BaseFile" where
  "BaseFile_create impl_answer this =
     (case impl_answer of
        Some e \<Rightarrow> (Inl e, this)
      | None \<Rightarrow> (Inr (), this\<lparr> lastRevNum := 0 \<rparr>))"

text \<open>
  A history of calls on one file, each with the answer of the subclass, and the
  revision numbers the \<^verbatim>\<open>revNum()\<close> calls of the history report, in order.
\<close>

datatype file_call =
    Call_revNum "TransactionSpec \<Rightarrow> error + transaction_result"
  | Call_transact "TransactionSpec \<Rightarrow> error + transaction_result" TransactionSpec
  | Call_create "error option"

fun is_create :: "file_call \<Rightarrow> bool" where
  "is_create (Call_create _) = True"
| "is_create _ = False"

fun reported :: "BaseFile \<Rightarrow> file_call list \<Rightarrow> int list" where
  "reported this [] = []"
| "reported this (Call_revNum a # cs) =
     (case BaseFile_revNum a this of
        (Inl e, this') \<Rightarrow> reported this' cs
      | (Inr r, this') \<Rightarrow> r # reported this' cs)"
| "reported this (Call_transact a spec # cs) = reported this cs"
| "reported this (Call_create a # cs) = reported (snd (BaseFile_create a this)) cs"

definition answer :: "int \<Rightarrow> int option \<Rightarrow> TransactionSpec \<Rightarrow> error + transaction_result" where
  "answer r n spec = Inr \<lparr> revNum = r, newRevNum = n, data = None \<rparr>"

definition fresh_file :: BaseFile where
  "fresh_file = \<lparr> fileId = ''some-file'', lastRevNum = - 1 \<rparr>"

section \<open>Properties of BaseDelta.compose\<close>

text \<open>
  C8 (as amended). \<open>a.compose(b, wantDocument)\<close> fails with an input error (class
  \<open>InvalidArgument\<close>) when \<open>b\<close> is not an instance of \<open>a\<close>'s concrete class (the
  bad-value error) and when \<open>wantDocument\<close> is true but \<open>a\<close> is not a document (the
  bad-use error). The result of the class's own composition is checked for its class
  first: a result that is not an instance of \<open>a\<close>'s class fails with the bad-value
  error, an input error, whether it is a document or not. When \<open>wantDocument\<close> is
  true and the result is an instance of \<open>a\<close>'s class that is not a document, it
  fails with \<^verbatim>\<open>wtf\<close>, the internal-consistency error, which is not an input error.
\<close>

theorem compose_failures:
  "(dclass b \<noteq> dclass a \<longrightarrow>
      compose impl a b w = Inl (bad_value (dclass a)) \<and>
      error_class_of (bad_value (dclass a)) = InvalidArgument)
   \<and> (dclass b = dclass a \<and> w \<and> \<not> isDocument impl a \<longrightarrow>
      compose impl a b w = Inl (bad_use msg_non_document_instance) \<and>
      error_class_of (bad_use msg_non_document_instance) = InvalidArgument)
   \<and> (dclass b = dclass a \<and> (w \<longrightarrow> isDocument impl a) \<and>
      impl_compose impl a b w = Inr r \<and> dclass r \<noteq> dclass a \<longrightarrow>
      compose impl a b w = Inl (bad_value (dclass a)) \<and>
      error_class_of (bad_value (dclass a)) = InvalidArgument)
   \<and> (dclass b = dclass a \<and> w \<and> isDocument impl a \<and>
      impl_compose impl a b w = Inr r \<and> dclass r = dclass a \<and> \<not> isDocument impl r \<longrightarrow>
      compose impl a b w = Inl (wtf msg_non_document_result) \<and>
      error_class_of (wtf msg_non_document_result) = InternalConsistency \<and>
      InternalConsistency \<noteq> InvalidArgument)"
  by (auto simp: compose_def delta_check_def)

theorem compose_failures_witness:
  "compose append_impl doc_x other_class_y False = Inl (bad_value ''MockDelta'')
   \<and> compose append_impl nondoc_r doc_x True
       = Inl (bad_use msg_non_document_instance)
   \<and> compose wrongclass_impl doc_x doc_x False = Inl (bad_value ''MockDelta'')
   \<and> compose broken_impl doc_x doc_x True
       = Inl (wtf msg_non_document_result)"
  using compose_failures [of other_class_y doc_x append_impl False doc_x]
        compose_failures [of doc_x nondoc_r append_impl True doc_x]
        compose_failures [of doc_x doc_x wrongclass_impl False wrongclass_result]
        compose_failures [of doc_x doc_x broken_impl True "\<lparr> dclass = ''MockDelta'', ops = [Op ''retain'' [''1'']] \<rparr>"]
  by (simp add: append_impl_def broken_impl_def wrongclass_impl_def wrongclass_result_def
      doc_x_def nondoc_r_def other_class_y_def isDocument_def)

text \<open>
  A document composed, with \<open>wantDocument\<close> true, by a class whose own composition
  answers with a delta that is not a document and not of the class: the failure is the
  bad-value error of the class check, an input error, and not \<^verbatim>\<open>wtf\<close>.
\<close>

theorem compose_nondocument_result_counterexample:
  "isDocument wrongclass_impl doc_x
   \<and> impl_compose wrongclass_impl doc_x doc_x True = Inr wrongclass_result
   \<and> \<not> isDocument wrongclass_impl wrongclass_result
   \<and> compose wrongclass_impl doc_x doc_x True = Inl (bad_value ''MockDelta'')
   \<and> error_class_of (bad_value ''MockDelta'') = InvalidArgument
   \<and> bad_value ''MockDelta'' \<noteq> wtf msg_non_document_result"
  by (simp add: compose_def delta_check_def wrongclass_impl_def wrongclass_result_def
      doc_x_def isDocument_def)

section \<open>The attempt loop of update\<close>

lemma update_loop_Returned:
  "attempt_fn (Suc n) = Returned r \<Longrightarrow>
   update_loop attempt_fn d t n evs = Some (Inr r, evs @ [Ev_impl_update (Suc n)])"
  by (subst update_loop.simps) simp

lemma update_loop_Thrown:
  "attempt_fn (Suc n) = Thrown e \<Longrightarrow>
   update_loop attempt_fn d t n evs = Some (Inl e, evs @ [Ev_impl_update (Suc n)])"
  by (subst update_loop.simps) simp

lemma update_loop_abort:
  "attempt_fn (Suc n) = Lost_race \<Longrightarrow> 20000 \<le> t \<Longrightarrow>
   update_loop attempt_fn d t n evs
     = Some (Inl (aborted msg_too_many_attempts), evs @ [Ev_impl_update (Suc n)])"
  by (subst update_loop.simps) (simp add: MAX_UPDATE_TIME_MSEC_def)

lemma update_loop_retry:
  "attempt_fn (Suc n) = Lost_race \<Longrightarrow> t < 20000 \<Longrightarrow>
   update_loop attempt_fn d t n evs
     = update_loop attempt_fn (d * 5) (t + d) (Suc n)
         (evs @ [Ev_impl_update (Suc n), Ev_delay d])"
  by (subst update_loop.simps)
     (simp add: MAX_UPDATE_TIME_MSEC_def UPDATE_RETRY_GROWTH_FACTOR_def)

lemma retry_total_small: "k \<le> 4 \<Longrightarrow> retry_total k < 20000"
proof -
  assume "k \<le> 4"
  then consider "k = 0" | "k = Suc 0" | "k = Suc (Suc 0)" | "k = Suc (Suc (Suc 0))"
    | "k = Suc (Suc (Suc (Suc 0)))"
    by arith
  then show ?thesis by cases simp_all
qed

lemma retry_total_5: "retry_total 5 = 39050"
  by (simp add: eval_nat_numeral)

lemma update_loop_backoff:
  "k \<le> 5 \<Longrightarrow> (\<forall>j. 1 \<le> j \<and> j \<le> k \<longrightarrow> attempt_fn j = Lost_race) \<Longrightarrow>
   update_loop attempt_fn 50 0 0 evs
     = update_loop attempt_fn (50 * 5 ^ k) (retry_total k) k (evs @ backoff_events k)"
proof (induction k)
  case 0
  show ?case by simp
next
  case (Suc k)
  have lost: "attempt_fn (Suc k) = Lost_race" using Suc.prems by simp
  have small: "retry_total k < 20000" using Suc.prems retry_total_small [of k] by simp
  have "update_loop attempt_fn 50 0 0 evs
      = update_loop attempt_fn (50 * 5 ^ k) (retry_total k) k (evs @ backoff_events k)"
    using Suc by simp
  also have "\<dots> = update_loop attempt_fn (50 * 5 ^ k * 5) (retry_total k + 50 * 5 ^ k) (Suc k)
         ((evs @ backoff_events k) @ [Ev_impl_update (Suc k), Ev_delay (50 * 5 ^ k)])"
    using lost small by (rule update_loop_retry [where attempt_fn = attempt_fn and n = k])
  finally show ?case by (simp add: mult.commute)
qed

lemma backoff_events_5:
  "backoff_events 5 =
     [Ev_impl_update 1, Ev_delay 50, Ev_impl_update 2, Ev_delay 250,
      Ev_impl_update 3, Ev_delay 1250, Ev_impl_update 4, Ev_delay 6250,
      Ev_impl_update 5, Ev_delay 31250]"
  by (simp add: eval_nat_numeral)

lemma update_loop_all_lost:
  assumes "\<forall>j. 1 \<le> j \<and> j \<le> 6 \<longrightarrow> attempt_fn j = Lost_race"
  shows "update_loop attempt_fn 50 0 0 evs
     = Some (Inl (aborted msg_too_many_attempts), evs @ backoff_events 5 @ [Ev_impl_update 6])"
proof -
  have six: "attempt_fn (Suc 5) = Lost_race" using assms by simp
  have "update_loop attempt_fn 50 0 0 evs
      = update_loop attempt_fn (50 * 5 ^ 5) (retry_total 5) 5 (evs @ backoff_events 5)"
    using assms by (intro update_loop_backoff) auto
  also have "\<dots> = Some (Inl (aborted msg_too_many_attempts),
                      (evs @ backoff_events 5) @ [Ev_impl_update (Suc 5)])"
    using six by (rule update_loop_abort [where attempt_fn = attempt_fn and n = 5]) (simp add: retry_total_5)
  finally show ?thesis by simp
qed

lemma update_loop_first_answer:
  assumes k: "1 \<le> k" "k \<le> 6"
    and lost: "\<forall>j. 1 \<le> j \<and> j < k \<longrightarrow> attempt_fn j = Lost_race"
    and ans: "attempt_fn k \<noteq> Lost_race"
  shows "update_loop attempt_fn 50 0 0 evs
     = Some (case attempt_fn k of Returned r \<Rightarrow> Inr r | Thrown e \<Rightarrow> Inl e
               | Lost_race \<Rightarrow> Inl (aborted msg_too_many_attempts),
             evs @ backoff_events (k - 1) @ [Ev_impl_update k])"
proof -
  obtain m where m: "k = Suc m" using k by (cases k) auto
  have "update_loop attempt_fn 50 0 0 evs
      = update_loop attempt_fn (50 * 5 ^ m) (retry_total m) m (evs @ backoff_events m)"
    using k lost m by (intro update_loop_backoff) auto
  also have "\<dots> = Some (case attempt_fn k of Returned r \<Rightarrow> Inr r | Thrown e \<Rightarrow> Inl e
               | Lost_race \<Rightarrow> Inl (aborted msg_too_many_attempts),
             (evs @ backoff_events m) @ [Ev_impl_update (Suc m)])"
    using ans m by (cases "attempt_fn (Suc m)") (simp_all add: update_loop_Returned update_loop_Thrown)
  finally show ?thesis using m by simp
qed

lemma update_loop_returns: "\<exists>res. update_loop attempt_fn 50 0 0 evs = Some res"
proof (cases "\<forall>j. 1 \<le> j \<and> j \<le> 6 \<longrightarrow> attempt_fn j = Lost_race")
  case True
  then show ?thesis using update_loop_all_lost [of attempt_fn evs] by simp
next
  case False
  then obtain j where j: "1 \<le> j" "j \<le> 6" "attempt_fn j \<noteq> Lost_race" by auto
  define k where "k = (LEAST i. 1 \<le> i \<and> attempt_fn i \<noteq> Lost_race)"
  have P: "1 \<le> k \<and> attempt_fn k \<noteq> Lost_race"
    unfolding k_def using j by (intro LeastI [of "\<lambda>i. 1 \<le> i \<and> attempt_fn i \<noteq> Lost_race" j]) simp
  have le: "k \<le> j"
    unfolding k_def using j by (intro Least_le) simp
  have before: "\<forall>i. 1 \<le> i \<and> i < k \<longrightarrow> attempt_fn i = Lost_race"
    unfolding k_def using not_less_Least by blast
  show ?thesis
    using update_loop_first_answer [of k attempt_fn evs] P le j before by simp
qed

text \<open>
  C1. An \<^verbatim>\<open>update()\<close> that reaches the attempt loop always returns. When every attempt
  loses the race, it sleeps 50, 250, 1250, 6250 and 31250 msec (50 at first, five
  times more after each retry) between six attempts and fails with the aborted error
  once the time slept so far (39050 msec after the fifth delay) has reached 20000
  msec. The first attempt that does not lose the race decides the result: its
  correction is returned, or its error is thrown, with no delay and no attempt after
  it.
\<close>

theorem update_retry_backoff:
  assumes "cclass change = changeClass ctl" and "timestamp change \<noteq> None"
    and "1 \<le> revNum change" and "\<not> isEmpty (delta change)"
    and "getSnapshot ctl (Some (revNum change - 1)) = (Inr baseSnapshot, evs)"
    and "snapshot_compose ctl baseSnapshot change = Inr expectedSnapshot"
  shows "update ctl change \<noteq> None
    \<and> ((\<forall>k. impl_update ctl k baseSnapshot change expectedSnapshot = Lost_race) \<longrightarrow>
        update ctl change =
          Some (Inl (aborted msg_too_many_attempts),
                evs @ [Ev_impl_update 1, Ev_delay 50, Ev_impl_update 2, Ev_delay 250,
                       Ev_impl_update 3, Ev_delay 1250, Ev_impl_update 4, Ev_delay 6250,
                       Ev_impl_update 5, Ev_delay 31250, Ev_impl_update 6]))
    \<and> (\<forall>k r. 1 \<le> k \<and> k \<le> 6
          \<and> (\<forall>j. 1 \<le> j \<and> j < k \<longrightarrow> impl_update ctl j baseSnapshot change expectedSnapshot = Lost_race)
          \<and> impl_update ctl k baseSnapshot change expectedSnapshot = Returned r \<longrightarrow>
        update ctl change = Some (Inr r, evs @ backoff_events (k - 1) @ [Ev_impl_update k]))
    \<and> (\<forall>k e. 1 \<le> k \<and> k \<le> 6
          \<and> (\<forall>j. 1 \<le> j \<and> j < k \<longrightarrow> impl_update ctl j baseSnapshot change expectedSnapshot = Lost_race)
          \<and> impl_update ctl k baseSnapshot change expectedSnapshot = Thrown e \<longrightarrow>
        update ctl change = Some (Inl e, evs @ backoff_events (k - 1) @ [Ev_impl_update k]))"
proof -
  let ?att = "\<lambda>k. impl_update ctl k baseSnapshot change expectedSnapshot"
  have upd: "update ctl change = update_loop ?att 50 0 0 evs"
    using assms by (auto simp: update_def change_check_def INITIAL_UPDATE_RETRY_MSEC_def)
  have returns: "update ctl change \<noteq> None"
    using update_loop_returns [of ?att evs] upd by auto
  have lost: "(\<forall>k. ?att k = Lost_race) \<longrightarrow>
        update ctl change =
          Some (Inl (aborted msg_too_many_attempts),
                evs @ [Ev_impl_update 1, Ev_delay 50, Ev_impl_update 2, Ev_delay 250,
                       Ev_impl_update 3, Ev_delay 1250, Ev_impl_update 4, Ev_delay 6250,
                       Ev_impl_update 5, Ev_delay 31250, Ev_impl_update 6])"
  proof
    assume all: "\<forall>k. ?att k = Lost_race"
    then have "\<forall>j. 1 \<le> j \<and> j \<le> 6 \<longrightarrow> ?att j = Lost_race" by blast
    then have "update_loop ?att 50 0 0 evs
        = Some (Inl (aborted msg_too_many_attempts), evs @ backoff_events 5 @ [Ev_impl_update 6])"
      by (rule update_loop_all_lost)
    then show "update ctl change =
          Some (Inl (aborted msg_too_many_attempts),
                evs @ [Ev_impl_update 1, Ev_delay 50, Ev_impl_update 2, Ev_delay 250,
                       Ev_impl_update 3, Ev_delay 1250, Ev_impl_update 4, Ev_delay 6250,
                       Ev_impl_update 5, Ev_delay 31250, Ev_impl_update 6])"
      unfolding upd backoff_events_5 by simp
  qed
  have won: "\<forall>k r. 1 \<le> k \<and> k \<le> 6 \<and> (\<forall>j. 1 \<le> j \<and> j < k \<longrightarrow> ?att j = Lost_race)
          \<and> ?att k = Returned r \<longrightarrow>
        update ctl change = Some (Inr r, evs @ backoff_events (k - 1) @ [Ev_impl_update k])"
  proof (intro allI impI)
    fix k r
    assume h: "1 \<le> k \<and> k \<le> 6 \<and> (\<forall>j. 1 \<le> j \<and> j < k \<longrightarrow> ?att j = Lost_race) \<and> ?att k = Returned r"
    then show "update ctl change = Some (Inr r, evs @ backoff_events (k - 1) @ [Ev_impl_update k])"
      using update_loop_first_answer [of k ?att evs] upd by simp
  qed
  have threw: "\<forall>k e. 1 \<le> k \<and> k \<le> 6 \<and> (\<forall>j. 1 \<le> j \<and> j < k \<longrightarrow> ?att j = Lost_race)
          \<and> ?att k = Thrown e \<longrightarrow>
        update ctl change = Some (Inl e, evs @ backoff_events (k - 1) @ [Ev_impl_update k])"
  proof (intro allI impI)
    fix k e
    assume h: "1 \<le> k \<and> k \<le> 6 \<and> (\<forall>j. 1 \<le> j \<and> j < k \<longrightarrow> ?att j = Lost_race) \<and> ?att k = Thrown e"
    then show "update ctl change = Some (Inl e, evs @ backoff_events (k - 1) @ [Ev_impl_update k])"
      using update_loop_first_answer [of k ?att evs] upd by simp
  qed
  from returns lost won threw show ?thesis by blast
qed

lemma demo_getSnapshot:
  "getSnapshot (demo_control 3 f) (Some 3) = (Inr (demo_snapshot 3), [Ev_currentRevNum, Ev_impl_getSnapshot 3])"
  by (simp add: getSnapshot_def currentRevNum_def demo_control_def RevisionNumber_check_def
      RevisionNumber_maxInc_def isSafeInteger_def snapshot_check_def demo_snapshot_def)

theorem update_retry_backoff_witness:
  "update (demo_control 3 always_lost) (demo_change 4 [Op ''insert'' [''y'']] (Some 1500000000000))
     = Some (Inl (aborted msg_too_many_attempts),
             [Ev_currentRevNum, Ev_impl_getSnapshot 3,
              Ev_impl_update 1, Ev_delay 50, Ev_impl_update 2, Ev_delay 250,
              Ev_impl_update 3, Ev_delay 1250, Ev_impl_update 4, Ev_delay 6250,
              Ev_impl_update 5, Ev_delay 31250, Ev_impl_update 6])
   \<and> update (demo_control 3 third_wins) (demo_change 4 [Op ''insert'' [''y'']] (Some 1500000000000))
     = Some (Inr (demo_change 4 [] None),
             [Ev_currentRevNum, Ev_impl_getSnapshot 3,
              Ev_impl_update 1, Ev_delay 50, Ev_impl_update 2, Ev_delay 250, Ev_impl_update 3])
   \<and> update (demo_control 3 second_throws) (demo_change 4 [Op ''insert'' [''y'']] (Some 1500000000000))
     = Some (Inl (other_error ''storage''),
             [Ev_currentRevNum, Ev_impl_getSnapshot 3,
              Ev_impl_update 1, Ev_delay 50, Ev_impl_update 2])"
proof -
  let ?c = "demo_change 4 [Op ''insert'' [''y'']] (Some 1500000000000)"
  let ?evs = "[Ev_currentRevNum, Ev_impl_getSnapshot 3]"
  let ?e = "(demo_snapshot 3)\<lparr> revNum := 4 \<rparr>"
  have h: "cclass ?c = changeClass (demo_control 3 f)" "timestamp ?c \<noteq> None" "1 \<le> revNum ?c"
    "\<not> isEmpty (delta ?c)"
    "getSnapshot (demo_control 3 f) (Some (revNum ?c - 1)) = (Inr (demo_snapshot 3), ?evs)"
    "snapshot_compose (demo_control 3 f) (demo_snapshot 3) ?c = Inr ?e" for f
    using demo_getSnapshot [of f] by (simp_all add: demo_change_def demo_control_def isEmpty_def)
  have a: "update (demo_control 3 always_lost) ?c
     = Some (Inl (aborted msg_too_many_attempts),
             ?evs @ [Ev_impl_update 1, Ev_delay 50, Ev_impl_update 2, Ev_delay 250,
              Ev_impl_update 3, Ev_delay 1250, Ev_impl_update 4, Ev_delay 6250,
              Ev_impl_update 5, Ev_delay 31250, Ev_impl_update 6])"
    using update_retry_backoff [OF h, of always_lost]
    by (simp add: demo_control_def always_lost_def)
  have b: "update (demo_control 3 third_wins) ?c
     = Some (Inr (demo_change 4 [] None), ?evs @ backoff_events (3 - 1) @ [Ev_impl_update 3])"
    using update_retry_backoff [OF h, of third_wins, THEN conjunct2, THEN conjunct2, THEN conjunct1,
        rule_format, of 3 "demo_change 4 [] None"]
    by (simp add: demo_control_def third_wins_def)
  have c: "update (demo_control 3 second_throws) ?c
     = Some (Inl (other_error ''storage''), ?evs @ backoff_events (2 - 1) @ [Ev_impl_update 2])"
    using update_retry_backoff [OF h, of second_throws, THEN conjunct2, THEN conjunct2, THEN conjunct2,
        rule_format, of 2 "other_error ''storage''"]
    by (simp add: demo_control_def second_throws_def)
  show ?thesis using a b c by (simp add: eval_nat_numeral)
qed

section \<open>Validation and the empty delta in update\<close>

text \<open>
  C2. For a change of the controller's change class with a timestamp, a revision
  number of at least 1 and an empty delta, \<^verbatim>\<open>update()\<close> returns the empty change at
  \<open>revNum - 1\<close> with no timestamp and no author, and does nothing else: it reads no
  revision number, asks for no snapshot and makes no attempt, whatever the controller
  and whatever the current revision is.
\<close>

theorem update_empty_delta:
  assumes "cclass change = changeClass ctl" and "timestamp change \<noteq> None"
    and "1 \<le> revNum change" and "isEmpty (delta change)"
  shows "\<exists>correction.
           update ctl change = Some (Inr correction, [])
         \<and> isEmpty (delta correction)
         \<and> revNum correction = revNum change - 1
         \<and> correction = \<lparr> revNum = revNum change - 1, delta = EMPTY (deltaClass ctl),
               timestamp = None, authorId = None, cclass = changeClass ctl \<rparr>"
  using assms
  by (auto simp: update_def change_check_def FIRST_def withRevNum_def isEmpty_def EMPTY_def)

theorem update_empty_delta_witness:
  "currentRevNum (demo_control 3 always_lost) = Inr 3
   \<and> update (demo_control 3 always_lost) (demo_change 1000 [] (Some 1500000000000))
     = Some (Inr (demo_change 999 [] None), [])"
proof -
  let ?c = "demo_change 1000 [] (Some 1500000000000)"
  let ?ctl = "demo_control 3 always_lost"
  have h: "cclass ?c = changeClass ?ctl" "timestamp ?c \<noteq> None" "1 \<le> revNum ?c"
    "isEmpty (delta ?c)"
    by (simp_all add: demo_control_def demo_change_def isEmpty_def)
  have cur: "currentRevNum ?ctl = Inr 3"
    by (simp add: currentRevNum_def demo_control_def RevisionNumber_check_def isSafeInteger_def)
  show ?thesis
    using update_empty_delta [OF h] cur
    by (simp add: demo_control_def demo_change_def EMPTY_def)
qed

text \<open>
  C6. A change with no timestamp or with a revision number below 1 makes
  \<^verbatim>\<open>update()\<close> fail with the bad-value error, an input error, before it reads a
  revision number, asks for a snapshot or makes an attempt.
\<close>

theorem update_validation:
  assumes "timestamp change = None \<or> revNum change < 1"
  shows "\<exists>expected.
           update ctl change = Some (Inl (bad_value expected), [])
         \<and> expected = (if cclass change \<noteq> changeClass ctl then changeClass ctl
                        else if timestamp change = None then ''timestamp !== null''
                        else ''revNum >= 1'')
         \<and> error_class_of (bad_value expected) = InvalidArgument"
  using assms
  by (auto simp: update_def change_check_def)

theorem update_validation_witness:
  "update (demo_control 3 third_wins) (demo_change 4 [Op ''insert'' [''y'']] None)
     = Some (Inl (bad_value ''timestamp !== null''), [])
   \<and> update (demo_control 3 third_wins) (demo_change 0 [Op ''insert'' [''y'']] (Some 1500000000000))
     = Some (Inl (bad_value ''revNum >= 1''), [])"
proof -
  let ?a = "demo_change 4 [Op ''insert'' [''y'']] None"
  let ?b = "demo_change 0 [Op ''insert'' [''y'']] (Some 1500000000000)"
  have ha: "timestamp ?a = None \<or> revNum ?a < 1" by (simp add: demo_change_def)
  have hb: "timestamp ?b = None \<or> revNum ?b < 1" by (simp add: demo_change_def)
  show ?thesis
    using update_validation [OF ha, of "demo_control 3 third_wins"]
      update_validation [OF hb, of "demo_control 3 third_wins"]
    by (simp add: demo_control_def demo_change_def)
qed

section \<open>Reading changes and snapshots\<close>





section \<open>Composing and comparing document snapshots\<close>

lemma RevisionNumber_check_Inr: "RevisionNumber_check n = Inr r \<Longrightarrow> r = n"
  by (simp add: RevisionNumber_check_def split: if_splits)

text \<open>
  C3 (as amended). \<open>s.compose(c)\<close> looks at the revision number of \<open>c\<close> only: the
  result is the same whatever the revision number of \<open>s\<close> is, so no relation between
  the two is required; and when it succeeds, the resulting snapshot has the revision
  number of \<open>c\<close>.
\<close>

theorem compose_revNum:
  "(DocumentSnapshot_compose q s c = Inr r \<longrightarrow> revNum r = revNum c)
   \<and> DocumentSnapshot_compose q (s\<lparr> revNum := n \<rparr>) c = DocumentSnapshot_compose q s c"
  by (auto simp: DocumentSnapshot_compose_def new_DocumentSnapshot_def
      dest: RevisionNumber_check_Inr split: sum.splits if_splits)

theorem compose_revNum_witness:
  "DocumentSnapshot_compose demo_quill snap_10 delta_20
     = Inr \<lparr> revNum = 20, contents = [Insert ''x''] \<rparr>
   \<and> revNum \<lparr> revNum = 20, contents = [Insert ''x''] \<rparr> = revNum delta_20
   \<and> DocumentSnapshot_compose demo_quill (snap_10\<lparr> revNum := 19 \<rparr>) delta_20
     = DocumentSnapshot_compose demo_quill snap_10 delta_20"
  using compose_revNum [of demo_quill snap_10 delta_20 "\<lparr> revNum = 20, contents = [Insert ''x''] \<rparr>" 19]
  by (simp add: DocumentSnapshot_compose_def new_DocumentSnapshot_def RevisionNumber_check_def
      isSafeInteger_def FrozenDelta_isDocument_def FrozenDelta_coerce_def demo_quill_def
      snap_10_def delta_20_def)

text \<open>
  The snapshot at revision 10 composes with a delta for revision 20, which is not the
  next revision, and the result is the snapshot at revision 20.
\<close>

theorem compose_wrong_revNum_counterexample:
  "DocumentSnapshot_compose demo_quill snap_10 delta_20
     = Inr \<lparr> revNum = 20, contents = [Insert ''x''] \<rparr>
   \<and> revNum delta_20 \<noteq> revNum snap_10 + 1"
  by (simp add: DocumentSnapshot_compose_def new_DocumentSnapshot_def RevisionNumber_check_def
      isSafeInteger_def FrozenDelta_isDocument_def FrozenDelta_coerce_def demo_quill_def
      snap_10_def delta_20_def)

text \<open>
  C4. \<open>s1.diff(s2)\<close> hands \<open>s2\<close> itself, not its contents, to the \<^verbatim>\<open>diff\<close> of the
  contents of \<open>s1\<close>. With a delta library that throws a type error on an argument
  that is not a delta, \<open>s1.diff(s2)\<close> fails for every pair of snapshots, so there is
  no change to compose and \<open>s1.compose(s1.diff(s2))\<close> is never \<open>s2\<close>.
\<close>

theorem diff_passes_snapshot:
  "DocumentSnapshot_diff q s1 s2
     = (case q_diff q (contents s1) (V_snapshot s2) of
          Inl e \<Rightarrow> Inl e
        | Inr d \<Rightarrow> new_DocumentDelta (revNum s2) d)
   \<and> ((\<forall>d s. q_diff q d (V_snapshot s) = Inl js_type_error) \<longrightarrow>
        DocumentSnapshot_diff q s1 s2 = Inl js_type_error)"
  by (simp add: DocumentSnapshot_diff_def FrozenDelta_coerce_def split: sum.splits)

theorem diff_passes_snapshot_witness:
  "DocumentSnapshot_diff demo_quill snap_0 snap_1 = Inl js_type_error
   \<and> q_diff demo_quill (contents snap_0) (V_delta (contents snap_1)) = Inr [Insert ''x'', Delete 0]"
proof -
  have "\<forall>d s. q_diff demo_quill d (V_snapshot s) = Inl js_type_error"
    by (simp add: demo_quill_def)
  then show ?thesis
    using diff_passes_snapshot [of demo_quill snap_0 snap_1]
    by (simp add: demo_quill_def snap_0_def snap_1_def)
qed

section \<open>The author of a session\<close>

text \<open>
  C7. For a session made with author id \<open>aid\<close> and session id \<open>sid\<close>,
  \<^verbatim>\<open>applyDelta\<close> hands \<open>aid\<close> to the document controller as the author, whatever the
  revision number and the delta the caller supplies, and \<^verbatim>\<open>caretUpdate\<close> hands \<open>sid\<close>
  to the caret controller. Whichever public method is called with whatever arguments,
  an author id that reaches a controller is \<open>aid\<close> and a session id that reaches one
  is \<open>sid\<close>.
\<close>

theorem session_supplies_author:
  assumes "new_AuthorSession fc sid aid = Inr s"
  shows "AuthorSession_applyDelta s b d = DocControl_applyDelta b d aid
       \<and> authors_passed (AuthorSession_applyDelta s b d) = [aid]
       \<and> AuthorSession_caretUpdate s r i l = CaretControl_update sid r i (case l of None \<Rightarrow> 0 | Some n \<Rightarrow> n)
       \<and> (\<forall>req surplus. set (authors_passed (invoke s req surplus)) \<subseteq> {aid})
       \<and> (\<forall>req surplus. set (sessions_passed (invoke s req surplus)) \<subseteq> {sid})"
proof -
  have s: "own_authorId s = aid" "own_sessionId s = sid"
    using assms by (auto simp: new_AuthorSession_def TString_nonempty_def split: if_splits)
  have a: "set (authors_passed (invoke s req surplus)) \<subseteq> {aid}" for req surplus
    using s by (cases req) (simp_all add: AuthorSession_applyDelta_def AuthorSession_change_def AuthorSession_deltaAfter_def AuthorSession_getLogInfo_def
        AuthorSession_getSessionId_def AuthorSession_snapshot_def AuthorSession_caretDeltaAfter_def AuthorSession_caretSnapshot_def AuthorSession_caretUpdate_def)
  have b: "set (sessions_passed (invoke s req surplus)) \<subseteq> {sid}" for req surplus
    using s by (cases req) (simp_all add: AuthorSession_applyDelta_def AuthorSession_change_def AuthorSession_deltaAfter_def AuthorSession_getLogInfo_def
        AuthorSession_getSessionId_def AuthorSession_snapshot_def AuthorSession_caretDeltaAfter_def AuthorSession_caretSnapshot_def AuthorSession_caretUpdate_def)
  show ?thesis using s a b by (simp add: AuthorSession_applyDelta_def AuthorSession_caretUpdate_def)
qed

theorem session_supplies_author_witness:
  "AuthorSession_applyDelta \<lparr> fileComplex = demo_fileComplex, own_sessionId = ''session-1'', own_authorId = ''alice'' \<rparr>
      7 [Insert ''bob'']
     = DocControl_applyDelta 7 [Insert ''bob''] ''alice''
   \<and> AuthorSession_caretUpdate \<lparr> fileComplex = demo_fileComplex, own_sessionId = ''session-1'', own_authorId = ''alice'' \<rparr>
      7 3 None
     = CaretControl_update ''session-1'' 7 3 0
   \<and> set (authors_passed (invoke
        \<lparr> fileComplex = demo_fileComplex, own_sessionId = ''session-1'', own_authorId = ''alice'' \<rparr>
        (R_applyDelta 7 [Insert ''bob'']) [''mallory''])) \<subseteq> {''alice''}"
proof -
  have n: "new_AuthorSession demo_fileComplex ''session-1'' ''alice''
     = Inr \<lparr> fileComplex = demo_fileComplex, own_sessionId = ''session-1'', own_authorId = ''alice'' \<rparr>"
    by (simp add: new_AuthorSession_def TString_nonempty_def)
  show ?thesis
    using session_supplies_author [OF n, of 7 "[Insert ''bob'']" 7 3 None] by simp
qed

section \<open>Revision numbers of a file\<close>

lemma BaseFile_revNum_Inr:
  "BaseFile_revNum a f = (Inr r, f') \<Longrightarrow> lastRevNum f \<le> r \<and> lastRevNum f' = r"
  by (auto simp: BaseFile_revNum_def TInt_min_def split: sum.splits if_splits)

lemma BaseFile_revNum_Inl:
  "BaseFile_revNum a f = (Inl e, f') \<Longrightarrow> f' = f"
  by (auto simp: BaseFile_revNum_def split: sum.splits)

lemma reported_lower_bound:
  "\<forall>c \<in> set cs. \<not> is_create c \<Longrightarrow> \<forall>v \<in> set (reported f cs). lastRevNum f \<le> v"
proof (induction cs arbitrary: f)
  case Nil
  show ?case by simp
next
  case (Cons c cs)
  show ?case
  proof (cases c)
    case (Call_revNum a)
    obtain res f' where r: "BaseFile_revNum a f = (res, f')" by (cases "BaseFile_revNum a f")
    show ?thesis
    proof (cases res)
      case (Inl e)
      then have "f' = f" using r BaseFile_revNum_Inl by blast
      then show ?thesis using Cons Call_revNum r Inl by simp
    next
      case (Inr v)
      then have b: "lastRevNum f \<le> v" "lastRevNum f' = v" using r BaseFile_revNum_Inr by blast+
      have "\<forall>w \<in> set (reported f' cs). lastRevNum f' \<le> w" using Cons by simp
      then show ?thesis using Call_revNum r Inr b by auto
    qed
  next
    case (Call_transact a spec)
    then show ?thesis using Cons by simp
  next
    case (Call_create a)
    then show ?thesis using Cons.prems by simp
  qed
qed

lemma reported_sorted:
  "\<forall>c \<in> set cs. \<not> is_create c \<Longrightarrow> sorted (reported f cs)"
proof (induction cs arbitrary: f)
  case Nil
  show ?case by simp
next
  case (Cons c cs)
  show ?case
  proof (cases c)
    case (Call_revNum a)
    obtain res f' where r: "BaseFile_revNum a f = (res, f')" by (cases "BaseFile_revNum a f")
    show ?thesis
    proof (cases res)
      case (Inl e)
      then show ?thesis using Cons Call_revNum r by simp
    next
      case (Inr v)
      then have b: "lastRevNum f' = v" using r BaseFile_revNum_Inr by blast
      have "\<forall>w \<in> set (reported f' cs). lastRevNum f' \<le> w"
        using Cons.prems by (intro reported_lower_bound) simp
      then show ?thesis using Cons Call_revNum r Inr b by simp
    qed
  next
    case (Call_transact a spec)
    then show ?thesis using Cons by simp
  next
    case (Call_create a)
    then show ?thesis using Cons.prems by simp
  qed
qed

text \<open>
  C9 (as amended). In a history of calls on a file that does not create the file
  anew, the revision numbers that the \<^verbatim>\<open>revNum()\<close> calls report never go down (the
  same number may be reported again), and none is below the last one the file had
  reported before. A transaction whose result reports a \<^verbatim>\<open>newRevNum\<close> reports one of at
  least \<open>revNum + 1\<close>, with \<open>revNum\<close> not negative.
\<close>

theorem revNum_monotone:
  "((\<forall>c \<in> set cs. \<not> is_create c) \<longrightarrow>
      sorted (reported f cs) \<and> (\<forall>v \<in> set (reported f cs). lastRevNum f \<le> v))
   \<and> (BaseFile_transact impl spec = Inr result \<and> newRevNum result = Some n \<longrightarrow>
        0 \<le> revNum result \<and> revNum result + 1 \<le> n)"
  using reported_sorted [of cs f] reported_lower_bound [of cs f]
  by (auto simp: BaseFile_transact_def TInt_min_def TInt_nonNegative_def
      split: sum.splits if_splits option.splits)

theorem revNum_monotone_witness:
  "sorted (reported fresh_file [Call_revNum (answer 3 None), Call_revNum (answer 2 None),
        Call_transact (answer 3 (Some 4)) [Op_writePath ''/a'' ''b''], Call_revNum (answer 4 None)])
   \<and> reported fresh_file [Call_revNum (answer 3 None), Call_revNum (answer 2 None),
        Call_transact (answer 3 (Some 4)) [Op_writePath ''/a'' ''b''], Call_revNum (answer 4 None)]
       = [3, 4]
   \<and> BaseFile_transact (answer 3 (Some 4)) [Op_writePath ''/a'' ''b'']
       = Inr \<lparr> revNum = 3, newRevNum = Some 4, data = None \<rparr>
   \<and> BaseFile_transact (answer 3 (Some 3)) [Op_writePath ''/a'' ''b''] = Inl (bad_value ''Int'')"
  using revNum_monotone [of "[Call_revNum (answer 3 None), Call_revNum (answer 2 None),
        Call_transact (answer 3 (Some 4)) [Op_writePath ''/a'' ''b''], Call_revNum (answer 4 None)]"
        fresh_file "answer 3 (Some 4)" "[Op_writePath ''/a'' ''b'']"
        "\<lparr> revNum = 3, newRevNum = Some 4, data = None \<rparr>" 4]
  by (simp add: BaseFile_transact_def answer_def fresh_file_def BaseFile_revNum_def TInt_min_def
      TInt_nonNegative_def)

text \<open>
  What the checks of the base class let through: a transaction at revision 3 whose
  writes produce revision 10; the same revision number reported by two reads in a
  row; a read that reports 0 after one that reported 5, the file having been created
  anew in between; and a transaction with a write whose result has no \<^verbatim>\<open>newRevNum\<close>.
\<close>

theorem revNum_counterexample:
  "BaseFile_transact (answer 3 (Some 10)) [Op_writePath ''/a'' ''b'']
     = Inr \<lparr> revNum = 3, newRevNum = Some 10, data = None \<rparr>
   \<and> reported fresh_file [Call_revNum (answer 3 None),
        Call_transact (answer 3 (Some 10)) [Op_writePath ''/a'' ''b''],
        Call_revNum (answer 10 None), Call_revNum (answer 10 None)] = [3, 10, 10]
   \<and> reported fresh_file [Call_revNum (answer 5 None), Call_create None,
        Call_revNum (answer 0 None)] = [5, 0]
   \<and> list_ex is_write [Op_writePath ''/a'' ''b'']
   \<and> BaseFile_transact (answer 3 None) [Op_writePath ''/a'' ''b'']
     = Inr \<lparr> revNum = 3, newRevNum = None, data = None \<rparr>"
  by (simp add: BaseFile_transact_def answer_def fresh_file_def BaseFile_revNum_def TInt_min_def
      TInt_nonNegative_def BaseFile_create_def)

end
